theory Spec2Isabelle
  imports
    Complex_Main
    "HOL-Library.Char_ord"
    "HOL-Library.List_Lexorder"
    "HOL-Library.Product_Lexorder"
    "HOL-Library.Multiset"
begin

section \<open>Data model\<close>

text \<open>
  A row of the unified CSV table, as \<^verbatim>\<open>pd.read_csv\<close> delivers it. A text cell is
  \<open>Some s\<close>, an empty cell (pandas \<^verbatim>\<open>NaN\<close>) is \<open>None\<close>. The numeric column
  \<^verbatim>\<open>value_numeric\<close> is a float with \<^verbatim>\<open>NaN\<close> for a missing value; floats are taken
  as reals here, \<open>None\<close> is \<^verbatim>\<open>NaN\<close>.
\<close>

record row =
  record_type :: "string option"
  observation_date :: "string option"
  indicator_code :: "string option"
  pillar :: "string option"
  gender :: "string option"
  unit :: "string option"
  value_numeric :: "real option"

text \<open>
  \<^verbatim>\<open>obs['year'] = ...\<close> adds one column to the copy: a row of the observation (or
  event) table is a row of the source table extended by \<open>year\<close>, \<open>None\<close> being \<^verbatim>\<open>NaN\<close>.
\<close>

record yrow = row +
  year :: "int option"

definition with_year :: "row \<Rightarrow> int option \<Rightarrow> yrow" where
  "with_year r y = row.extend r (yrow.fields y)"

record timestamp =
  ts_year :: int
  ts_month :: nat
  ts_day :: nat

datatype py_error =
  FileNotFoundError | PermissionError | EmptyDataError | ParserError | ValueError | IndexError
  | KeyError

section \<open>Loader\<close>

text \<open>
  \<^verbatim>\<open>load_data\<close> reads three files in turn with \<^verbatim>\<open>pd.read_csv\<close>. Reading a file is
  outside the program: the outcome of each read (the table, or the exception raised) is an
  argument. The first exception leaves the function; the later reads do not happen.
\<close>

definition load_data ::
  "py_error + row list \<Rightarrow> py_error + 'f \<Rightarrow> py_error + 'm \<Rightarrow> py_error + (row list \<times> 'f \<times> 'm)"
where
  "load_data read_main read_forecast read_impact =
     (case read_main of
        Inl e \<Rightarrow> Inl e
      | Inr main_data \<Rightarrow>
          (case read_forecast of
             Inl e \<Rightarrow> Inl e
           | Inr forecast_data \<Rightarrow>
               (case read_impact of
                  Inl e \<Rightarrow> Inl e
                | Inr impact_matrix \<Rightarrow> Inr (main_data, forecast_data, impact_matrix))))"

section \<open>Partitioner\<close>

text \<open>
  \<^verbatim>\<open>pd.to_datetime(col, format='mixed', errors=...)\<close>. The parser of one date string is
  the library's and is an argument \<open>parse\<close>: \<open>None\<close> when the string fits no format.
  An empty cell becomes \<^verbatim>\<open>NaT\<close> in both modes. With \<^verbatim>\<open>errors='raise'\<close> a string that
  fits no format raises; with \<^verbatim>\<open>errors='coerce'\<close> it becomes \<^verbatim>\<open>NaT\<close>.
\<close>

datatype errors_mode = Raise | Coerce

definition to_datetime_cell ::
  "(string \<Rightarrow> timestamp option) \<Rightarrow> errors_mode \<Rightarrow> string option \<Rightarrow> py_error + timestamp option"
where
  "to_datetime_cell parse errors c =
     (case c of
        None \<Rightarrow> Inr None
      | Some s \<Rightarrow>
          (case parse s of
             Some t \<Rightarrow> Inr (Some t)
           | None \<Rightarrow> (if errors = Coerce then Inr None else Inl ValueError)))"

fun to_datetime ::
  "(string \<Rightarrow> timestamp option) \<Rightarrow> errors_mode \<Rightarrow> string option list
     \<Rightarrow> py_error + timestamp option list"
where
  "to_datetime parse errors [] = Inr []"
| "to_datetime parse errors (c # cs) =
     (case to_datetime_cell parse errors c of
        Inl e \<Rightarrow> Inl e
      | Inr t \<Rightarrow>
          (case to_datetime parse errors cs of
             Inl e \<Rightarrow> Inl e
           | Inr ts \<Rightarrow> Inr (t # ts)))"

text \<open>\<^verbatim>\<open>.dt.year\<close>: the year of each timestamp, \<^verbatim>\<open>NaN\<close> for \<^verbatim>\<open>NaT\<close>.\<close>

definition dt_year :: "timestamp option list \<Rightarrow> int option list" where
  "dt_year ts = map (map_option ts_year) ts"

text \<open>
  \<^verbatim>\<open>df[df['record_type'] == 'observation'].copy()\<close>, then the assignment of the
  \<^verbatim>\<open>year\<close> column to the copy. A comparison of \<^verbatim>\<open>NaN\<close> with a string is false.
\<close>

definition eq_cell :: "string option \<Rightarrow> string \<Rightarrow> bool" where
  "eq_cell c s = (case c of None \<Rightarrow> False | Some s' \<Rightarrow> s' = s)"

definition assign_year :: "row list \<Rightarrow> int option list \<Rightarrow> yrow list" where
  "assign_year rows ys = map (\<lambda>(r, y). with_year r y) (zip rows ys)"

definition process_observations ::
  "(string \<Rightarrow> timestamp option) \<Rightarrow> row list \<Rightarrow> py_error + yrow list"
where
  "process_observations parse main_data =
     (let obs = filter (\<lambda>r. eq_cell (record_type r) ''observation'') main_data
      in case to_datetime parse Coerce (map observation_date obs) of
           Inl e \<Rightarrow> Inl e
         | Inr ts \<Rightarrow> Inr (assign_year obs (dt_year ts)))"

definition process_events ::
  "(string \<Rightarrow> timestamp option) \<Rightarrow> row list \<Rightarrow> py_error + yrow list"
where
  "process_events parse main_data =
     (let events = filter (\<lambda>r. eq_cell (record_type r) ''event'') main_data
      in case to_datetime parse Coerce (map observation_date events) of
           Inl e \<Rightarrow> Inl e
         | Inr ts \<Rightarrow> Inr (assign_year events (dt_year ts)))"

subsection \<open>The same two functions on an object store\<close>

text \<open>
  Whether the source table survives the partitioning depends on which DataFrame object the
  column assignment writes to. Here DataFrames are objects in a store, addressed by their
  position; a frame has its rows and, once assigned, a \<^verbatim>\<open>year\<close> column. Boolean-mask
  indexing and \<^verbatim>\<open>.copy()\<close> each allocate a new object; \<^verbatim>\<open>df['year'] = ...\<close> writes
  to the object it is called on.
\<close>

datatype frame = Frame (frame_rows: "row list") (frame_year: "int option list option")

type_synonym addr = nat
type_synonym store = "frame list"

definition alloc :: "frame \<Rightarrow> store \<Rightarrow> addr \<times> store" where
  "alloc f h = (length h, h @ [f])"

text \<open>\<^verbatim>\<open>df[mask]\<close> with a boolean mask, one entry for each row: a new frame.\<close>

definition getitem_bool :: "bool list \<Rightarrow> addr \<Rightarrow> store \<Rightarrow> addr \<times> store" where
  "getitem_bool keep a h =
     (case h ! a of
        Frame rows ycol \<Rightarrow>
          alloc (Frame (map snd (filter fst (zip keep rows)))
                   (map_option (\<lambda>ys. map snd (filter fst (zip keep ys))) ycol)) h)"

definition df_copy :: "addr \<Rightarrow> store \<Rightarrow> addr \<times> store" where
  "df_copy a h = alloc (h ! a) h"

definition setitem_year :: "addr \<Rightarrow> int option list \<Rightarrow> store \<Rightarrow> store" where
  "setitem_year a ys h = h[a := Frame (frame_rows (h ! a)) (Some ys)]"

definition process_st ::
  "string \<Rightarrow> (string \<Rightarrow> timestamp option) \<Rightarrow> addr \<Rightarrow> store \<Rightarrow> py_error + (addr \<times> store)"
where
  "process_st kind parse main_data h =
     (let keep = map (\<lambda>r. eq_cell (record_type r) kind) (frame_rows (h ! main_data));
          (masked, h1) = getitem_bool keep main_data h;
          (obs, h2) = df_copy masked h1
      in case to_datetime parse Coerce (map observation_date (frame_rows (h2 ! obs))) of
           Inl e \<Rightarrow> Inl e
         | Inr ts \<Rightarrow> Inr (obs, setitem_year obs (dt_year ts) h2))"

definition process_observations_st ::
  "(string \<Rightarrow> timestamp option) \<Rightarrow> addr \<Rightarrow> store \<Rightarrow> py_error + (addr \<times> store)"
where
  "process_observations_st = process_st ''observation''"

definition process_events_st ::
  "(string \<Rightarrow> timestamp option) \<Rightarrow> addr \<Rightarrow> store \<Rightarrow> py_error + (addr \<times> store)"
where
  "process_events_st = process_st ''event''"

text \<open>The table a frame with a \<^verbatim>\<open>year\<close> column stands for.\<close>

definition frame_table :: "frame \<Rightarrow> yrow list" where
  "frame_table f =
     (case frame_year f of None \<Rightarrow> [] | Some ys \<Rightarrow> assign_year (frame_rows f) ys)"

section \<open>Filter and aggregate (Trends page)\<close>

text \<open>
  The boolean mask of the Trends page. \<^verbatim>\<open>isin\<close> of an empty cell is false, and so is
  every comparison of a \<^verbatim>\<open>NaN\<close> year with a number. The source compares the unit with the
  literal \<^verbatim>\<open>'%'\<close>; \<open>filter_obs\<close> takes the unit as an argument and \<open>filtered_obs\<close> is
  the source's instance.
\<close>

definition isin :: "string option \<Rightarrow> string list \<Rightarrow> bool" where
  "isin c vs = (case c of None \<Rightarrow> False | Some s \<Rightarrow> s \<in> set vs)"

definition ge_cell :: "int option \<Rightarrow> int \<Rightarrow> bool" where
  "ge_cell c n = (case c of None \<Rightarrow> False | Some y \<Rightarrow> y \<ge> n)"

definition le_cell :: "int option \<Rightarrow> int \<Rightarrow> bool" where
  "le_cell c n = (case c of None \<Rightarrow> False | Some y \<Rightarrow> y \<le> n)"

definition filter_obs :: "yrow list \<Rightarrow> string list \<Rightarrow> int \<times> int \<Rightarrow> string \<Rightarrow> yrow list" where
  "filter_obs observations selected_pillars year_range u =
     filter (\<lambda>r. isin (pillar r) selected_pillars
                \<and> ge_cell (year r) (fst year_range)
                \<and> le_cell (year r) (snd year_range)
                \<and> eq_cell (unit r) u) observations"

definition filtered_obs :: "yrow list \<Rightarrow> string list \<Rightarrow> int \<times> int \<Rightarrow> yrow list" where
  "filtered_obs observations selected_pillars year_range =
     filter_obs observations selected_pillars year_range ''%''"

text \<open>
  \<^verbatim>\<open>groupby(['indicator_code', 'year', 'pillar'])['value_numeric'].mean().reset_index()\<close>.
  With the defaults of \<^verbatim>\<open>groupby\<close> (\<^verbatim>\<open>sort=True\<close>, \<^verbatim>\<open>dropna=True\<close>) a row with an empty
  key cell is in no group, and the result has one row for each key that occurs, in
  ascending order of the key. \<^verbatim>\<open>mean\<close> skips \<^verbatim>\<open>NaN\<close>; the mean of no value is \<^verbatim>\<open>NaN\<close>.
\<close>

type_synonym group_key = "string \<times> int \<times> string"

definition group_key :: "yrow \<Rightarrow> group_key option" where
  "group_key r =
     (case indicator_code r of
        None \<Rightarrow> None
      | Some c \<Rightarrow>
          (case year r of
             None \<Rightarrow> None
           | Some y \<Rightarrow> (case pillar r of None \<Rightarrow> None | Some p \<Rightarrow> Some (c, y, p))))"

primrec dropna :: "'a option list \<Rightarrow> 'a list" where
  "dropna [] = []"
| "dropna (v # vs) = (case v of None \<Rightarrow> dropna vs | Some x \<Rightarrow> x # dropna vs)"

definition group_keys :: "yrow list \<Rightarrow> group_key list" where
  "group_keys rows = sort (remdups (dropna (map group_key rows)))"

definition group_rows :: "group_key \<Rightarrow> yrow list \<Rightarrow> yrow list" where
  "group_rows k rows = filter (\<lambda>r. group_key r = Some k) rows"

definition mean_skipna :: "real option list \<Rightarrow> real option" where
  "mean_skipna vs =
     (let xs = dropna vs
      in if xs = [] then None else Some (sum_list xs / real (length xs)))"

definition trend_data :: "yrow list \<Rightarrow> (group_key \<times> real option) list" where
  "trend_data filtered =
     map (\<lambda>k. (k, mean_skipna (map value_numeric (group_rows k filtered)))) (group_keys filtered)"

section \<open>Latest-value selector (Overview page)\<close>

text \<open>
  \<^verbatim>\<open>sort_values('year')\<close>: ascending, \<^verbatim>\<open>na_position='last'\<close>. pandas sorts the rows
  whose year is present and appends the rows whose year is \<^verbatim>\<open>NaN\<close> in their table order.
  Rows of equal year are kept in table order here.
\<close>

definition sort_values_year :: "yrow list \<Rightarrow> yrow list" where
  "sort_values_year df =
     map snd (sort_key fst (dropna (map (\<lambda>r. map_option (\<lambda>y. (y, r)) (year r)) df)))
       @ filter (\<lambda>r. year r = None) df"

text \<open>
  The source selects with the literals \<^verbatim>\<open>'ACC_OWNERSHIP'\<close> and \<^verbatim>\<open>'all'\<close>;
  \<open>select_sorted\<close> takes them as arguments and \<open>acc_ownership\<close> is the source's instance.
\<close>

definition select_sorted :: "string \<Rightarrow> string \<Rightarrow> yrow list \<Rightarrow> yrow list" where
  "select_sorted code g observations =
     sort_values_year
       (filter (\<lambda>r. eq_cell (indicator_code r) code \<and> eq_cell (gender r) g) observations)"

definition acc_ownership :: "yrow list \<Rightarrow> yrow list" where
  "acc_ownership observations = select_sorted ''ACC_OWNERSHIP'' ''all'' observations"

text \<open>\<^verbatim>\<open>.iloc[i]\<close>: a negative position counts from the end; out of range raises.\<close>

definition iloc :: "'a list \<Rightarrow> int \<Rightarrow> py_error + 'a" where
  "iloc xs i =
     (if 0 \<le> i \<and> i < int (length xs) then Inr (xs ! nat i)
      else if i < 0 \<and> - int (length xs) \<le> i then Inr (xs ! nat (int (length xs) + i))
      else Inl IndexError)"

definition current_acc :: "yrow list \<Rightarrow> py_error + real option" where
  "current_acc acc =
     (if length acc > 0 then iloc (map value_numeric acc) (- 1) else Inr (Some 49.0))"

definition prev_acc :: "yrow list \<Rightarrow> py_error + real option" where
  "prev_acc acc =
     (if length acc > 1 then iloc (map value_numeric acc) (- 2) else Inr (Some 46.0))"

text \<open>
  The selector in the specification's words, for comparison with the two source
  expressions above: filter to the rows of the indicator and gender, sort ascending by
  year, return the last two values, the most recent first; a value that does not exist
  is absent (outer \<open>None\<close>). A value that exists is the cell itself, which may be \<^verbatim>\<open>NaN\<close>.
\<close>

definition latestAndPrevious_spec ::
  "yrow list \<Rightarrow> string \<Rightarrow> string \<Rightarrow> real option option \<times> real option option"
where
  "latestAndPrevious_spec observations indicatorCode g =
     (case rev (map value_numeric (select_sorted indicatorCode g observations)) of
        [] \<Rightarrow> (None, None)
      | [c] \<Rightarrow> (Some c, None)
      | c # p # _ \<Rightarrow> (Some c, Some p))"

section \<open>The script: loading block and pages\<close>

text \<open>
  The module-level \<^verbatim>\<open>try\<close> block binds the five tables, or reports the exception with
  \<^verbatim>\<open>st.error\<close> and sets \<^verbatim>\<open>data_loaded = False\<close>. The session holds the tables that
  are bound when the block succeeds.
\<close>

record ('f, 'm) session =
  s_main_data :: "row list"
  s_forecast_data :: 'f
  s_impact_matrix :: 'm
  s_observations :: "yrow list"
  s_events :: "yrow list"

definition load_block ::
  "(string \<Rightarrow> timestamp option) \<Rightarrow> py_error + row list \<Rightarrow> py_error + 'f \<Rightarrow> py_error + 'm
     \<Rightarrow> py_error + ('f, 'm) session"
where
  "load_block parse read_main read_forecast read_impact =
     (case load_data read_main read_forecast read_impact of
        Inl e \<Rightarrow> Inl e
      | Inr (main_data, forecast_data, impact_matrix) \<Rightarrow>
          (case process_observations parse main_data of
             Inl e \<Rightarrow> Inl e
           | Inr observations \<Rightarrow>
               (case process_events parse main_data of
                  Inl e \<Rightarrow> Inl e
                | Inr events \<Rightarrow>
                    Inr \<lparr>s_main_data = main_data, s_forecast_data = forecast_data,
                         s_impact_matrix = impact_matrix, s_observations = observations,
                         s_events = events\<rparr>)))"

datatype page = Overview | Trends | Forecasts | Projections

text \<open>
  What a run of the script puts on the screen. An element that is computed from a loaded
  table carries that table or the values read from it; the download buttons carry the table
  that is handed to \<^verbatim>\<open>to_csv(index=False)\<close>. \<open>Static p\<close> stands for the charts and
  texts of page \<open>p\<close> that are built from literals only. \<open>Traceback\<close> is an exception that
  nothing catches: the run ends there.
\<close>

datatype ('f, 'm) element =
    Error_box py_error
  | Sidebar
  | Header page
  | Metric_account_ownership "real option" "real option"
  | Record_counts "string option list"
  | Events_timeline "yrow list"
  | Data_coverage nat nat nat
  | Trend_chart "(group_key \<times> real option) list"
  | Info_no_data
  | Download_observations "yrow list"
  | Download_forecast 'f
  | Download_impact 'm
  | Static page
  | Traceback py_error
  | Footer

text \<open>The elements that the script renders only under \<^verbatim>\<open>if data_loaded:\<close>.\<close>

fun page_content :: "('f, 'm) element \<Rightarrow> bool" where
  "page_content (Error_box e) = False"
| "page_content Sidebar = False"
| "page_content (Header p) = False"
| "page_content (Traceback e) = False"
| "page_content Footer = False"
| "page_content el = True"

definition overview_body :: "('f, 'm) session \<Rightarrow> py_error + ('f, 'm) element list" where
  "overview_body s =
     (let acc = acc_ownership (s_observations s)
      in case current_acc acc of
           Inl e \<Rightarrow> Inl e
         | Inr c \<Rightarrow>
             (case prev_acc acc of
                Inl e \<Rightarrow> Inl e
              | Inr p \<Rightarrow>
                  Inr [Metric_account_ownership c p, Static Overview,
                       Record_counts (map record_type (s_main_data s)),
                       Events_timeline (s_events s),
                       Data_coverage (length (s_main_data s)) (length (s_observations s))
                         (length (s_events s))]))"

definition trends_body :: "yrow list \<Rightarrow> int \<times> int \<Rightarrow> string list \<Rightarrow> ('f, 'm) element list" where
  "trends_body observations year_range selected_pillars =
     (let filtered = filtered_obs observations selected_pillars year_range
      in [if length filtered > 0 then Trend_chart (trend_data filtered) else Info_no_data,
          Static Trends,
          Download_observations observations])"

definition forecasts_body :: "('f, 'm) session \<Rightarrow> ('f, 'm) element list" where
  "forecasts_body s = [Static Forecasts, Download_forecast (s_forecast_data s)]"

definition projections_body :: "('f, 'm) session \<Rightarrow> ('f, 'm) element list" where
  "projections_body s =
     [Static Projections, Download_forecast (s_forecast_data s),
      Download_impact (s_impact_matrix s)]"

definition page_body ::
  "page \<Rightarrow> int \<times> int \<Rightarrow> string list \<Rightarrow> ('f, 'm) session \<Rightarrow> py_error + ('f, 'm) element list"
where
  "page_body p year_range selected_pillars s =
     (case p of
        Overview \<Rightarrow> overview_body s
      | Trends \<Rightarrow> Inr (trends_body (s_observations s) year_range selected_pillars)
      | Forecasts \<Rightarrow> Inr (forecasts_body s)
      | Projections \<Rightarrow> Inr (projections_body s))"

definition run_script ::
  "(string \<Rightarrow> timestamp option) \<Rightarrow> py_error + row list \<Rightarrow> py_error + 'f \<Rightarrow> py_error + 'm
     \<Rightarrow> page \<Rightarrow> int \<times> int \<Rightarrow> string list \<Rightarrow> ('f, 'm) element list"
where
  "run_script parse read_main read_forecast read_impact p year_range selected_pillars =
     (case load_block parse read_main read_forecast read_impact of
        Inl e \<Rightarrow> [Error_box e, Sidebar, Header p, Footer]
      | Inr s \<Rightarrow>
          (case page_body p year_range selected_pillars s of
             Inl e \<Rightarrow> [Sidebar, Header p, Traceback e]
           | Inr body \<Rightarrow> [Sidebar, Header p] @ body @ [Footer]))"

text \<open>
  One evaluation of the filter and aggregation of the Trends page on the object store.
  The mask is computed from the columns of the observation table, the masked table is a
  new object, and the group means are the value of the step. Reading the \<^verbatim>\<open>year\<close>
  column of a frame that has none raises.
\<close>

definition filter_aggregate_st ::
  "string list \<Rightarrow> int \<times> int \<Rightarrow> addr \<Rightarrow> store
     \<Rightarrow> py_error + ((group_key \<times> real option) list \<times> store)"
where
  "filter_aggregate_st selected_pillars year_range observations h =
     (if frame_year (h ! observations) = None then Inl KeyError
      else
        let keep = map (\<lambda>r. isin (pillar r) selected_pillars
                            \<and> ge_cell (year r) (fst year_range)
                            \<and> le_cell (year r) (snd year_range)
                            \<and> eq_cell (unit r) ''%'') (frame_table (h ! observations));
            (filtered_obs, h1) = getitem_bool keep observations h
        in Inr (trend_data (frame_table (h1 ! filtered_obs)), h1))"

section \<open>Derived notions used in the statements\<close>

text \<open>The year cell that the partitioner derives from a date cell.\<close>

definition year_of :: "(string \<Rightarrow> timestamp option) \<Rightarrow> string option \<Rightarrow> int option" where
  "year_of parse c =
     (case c of None \<Rightarrow> None | Some s \<Rightarrow> map_option ts_year (parse s))"

text \<open>Ascending order of the year cells with \<^verbatim>\<open>NaN\<close> last.\<close>

definition year_before :: "int option \<Rightarrow> int option \<Rightarrow> bool" where
  "year_before a b =
     (case b of None \<Rightarrow> True | Some y \<Rightarrow> (case a of None \<Rightarrow> False | Some x \<Rightarrow> x \<le> y))"

text \<open>The rows that the selector of the Overview page keeps.\<close>

definition matches :: "string \<Rightarrow> string \<Rightarrow> yrow \<Rightarrow> bool" where
  "matches code g r \<longleftrightarrow> indicator_code r = Some code \<and> gender r = Some g"

definition has_year :: "yrow \<Rightarrow> bool" where
  "has_year r \<longleftrightarrow> year r \<noteq> None"

section \<open>Example tables\<close>

definition mk_row ::
  "string \<Rightarrow> string \<Rightarrow> string \<Rightarrow> string \<Rightarrow> string \<Rightarrow> string \<Rightarrow> real option \<Rightarrow> row"
where
  "mk_row kind date code p g u v =
     \<lparr>record_type = Some kind, observation_date = Some date, indicator_code = Some code,
      pillar = Some p, gender = Some g, unit = Some u, value_numeric = v\<rparr>"

definition mk_ts :: "int \<Rightarrow> nat \<Rightarrow> nat \<Rightarrow> timestamp" where
  "mk_ts y m d = \<lparr>ts_year = y, ts_month = m, ts_day = d\<rparr>"

definition acc_row :: "string \<Rightarrow> string \<Rightarrow> real \<Rightarrow> row" where
  "acc_row date g v = mk_row ''observation'' date ''ACC_OWNERSHIP'' ''ACCESS'' g ''%'' (Some v)"

definition event_row :: row where
  "event_row = mk_row ''event'' ''2021-05-11'' ''EVT_TELEBIRR'' ''USAGE'' ''all'' ''count'' None"

text \<open>A date parser that knows the dates of the examples and nothing else.\<close>

definition example_parse :: "string \<Rightarrow> timestamp option" where
  "example_parse =
     map_of [(''2011-12-31'', mk_ts 2011 12 31), (''2014-12-31'', mk_ts 2014 12 31),
             (''2017-12-31'', mk_ts 2017 12 31), (''2021-12-31'', mk_ts 2021 12 31),
             (''2024-12-31'', mk_ts 2024 12 31), (''2021-05-11'', mk_ts 2021 5 11)]"

text \<open>
  The account-ownership series of the specification's example, in scrambled order, with
  one row of the other gender and one event; and the observation table that the
  partitioner makes of it.
\<close>

definition example_main :: "row list" where
  "example_main =
     [acc_row ''2017-12-31'' ''all'' 35, acc_row ''2011-12-31'' ''all'' 14, event_row,
      acc_row ''2024-12-31'' ''all'' 49, acc_row ''2021-12-31'' ''male'' 56,
      acc_row ''2014-12-31'' ''all'' 22, acc_row ''2021-12-31'' ''all'' 46]"

definition example_observations :: "yrow list" where
  "example_observations =
     [with_year (acc_row ''2017-12-31'' ''all'' 35) (Some 2017),
      with_year (acc_row ''2011-12-31'' ''all'' 14) (Some 2011),
      with_year (acc_row ''2024-12-31'' ''all'' 49) (Some 2024),
      with_year (acc_row ''2021-12-31'' ''male'' 56) (Some 2021),
      with_year (acc_row ''2014-12-31'' ''all'' 22) (Some 2014),
      with_year (acc_row ''2021-12-31'' ''all'' 46) (Some 2021)]"

text \<open>One more observation, whose date fits no format.\<close>

definition undated_row :: row where
  "undated_row = acc_row ''sometime'' ''all'' 55"

text \<open>Three observations of one group with the values 10, 20 and a missing one.\<close>

definition example_group :: "row list" where
  "example_group =
     [mk_row ''observation'' ''2021-12-31'' ''USG_P2P'' ''USAGE'' ''all'' ''%'' (Some 10),
      mk_row ''observation'' ''2021-12-31'' ''USG_P2P'' ''USAGE'' ''all'' ''%'' (Some 20),
      mk_row ''observation'' ''2021-12-31'' ''USG_P2P'' ''USAGE'' ''all'' ''%'' None]"

text \<open>Two observations of one group, both without a value.\<close>

definition example_no_value :: "row list" where
  "example_no_value =
     [mk_row ''observation'' ''2021-12-31'' ''USG_P2P'' ''USAGE'' ''all'' ''%'' None,
      mk_row ''observation'' ''2021-12-31'' ''USG_P2P'' ''USAGE'' ''male'' ''%'' None]"

section \<open>Basic facts about the model\<close>

lemma with_year_sel [simp]:
  "year (with_year r y) = y"
  "record_type (with_year r y) = record_type r"
  "observation_date (with_year r y) = observation_date r"
  "indicator_code (with_year r y) = indicator_code r"
  "pillar (with_year r y) = pillar r"
  "gender (with_year r y) = gender r"
  "unit (with_year r y) = unit r"
  "value_numeric (with_year r y) = value_numeric r"
  "row.truncate (with_year r y) = r"
  by (simp_all add: with_year_def row.defs yrow.defs)

lemma mk_row_sel [simp]:
  "record_type (mk_row k d c p g u v) = Some k"
  "observation_date (mk_row k d c p g u v) = Some d"
  "indicator_code (mk_row k d c p g u v) = Some c"
  "pillar (mk_row k d c p g u v) = Some p"
  "gender (mk_row k d c p g u v) = Some g"
  "unit (mk_row k d c p g u v) = Some u"
  "value_numeric (mk_row k d c p g u v) = v"
  by (simp_all add: mk_row_def)

lemma acc_row_sel [simp]:
  "record_type (acc_row d g v) = Some ''observation''"
  "observation_date (acc_row d g v) = Some d"
  "indicator_code (acc_row d g v) = Some ''ACC_OWNERSHIP''"
  "pillar (acc_row d g v) = Some ''ACCESS''"
  "gender (acc_row d g v) = Some g"
  "unit (acc_row d g v) = Some ''%''"
  "value_numeric (acc_row d g v) = Some v"
  by (simp_all add: acc_row_def)

lemma eq_cell_iff: "eq_cell c s \<longleftrightarrow> c = Some s"
  by (auto simp: eq_cell_def split: option.splits)

text \<open>With \<^verbatim>\<open>errors='coerce'\<close> the year column is always produced.\<close>

lemma derive_year_total:
  "(case to_datetime parse Coerce (map observation_date rows) of
      Inl e \<Rightarrow> Inl e
    | Inr ts \<Rightarrow> Inr (assign_year rows (dt_year ts))) =
   Inr (map (\<lambda>r. with_year r (year_of parse (observation_date r))) rows)"
proof (induction rows)
  case Nil
  show ?case by (simp add: assign_year_def dt_year_def)
next
  case (Cons r rows)
  then show ?case
    by (auto simp: assign_year_def dt_year_def year_of_def to_datetime_cell_def
             split: option.splits sum.splits)
qed

lemma process_observations_eq:
  "process_observations parse main_data =
     Inr (map (\<lambda>r. with_year r (year_of parse (observation_date r)))
            (filter (\<lambda>r. record_type r = Some ''observation'') main_data))"
  unfolding process_observations_def Let_def derive_year_total
  by (simp add: eq_cell_iff)

lemma process_events_eq:
  "process_events parse main_data =
     Inr (map (\<lambda>r. with_year r (year_of parse (observation_date r)))
            (filter (\<lambda>r. record_type r = Some ''event'') main_data))"
  unfolding process_events_def Let_def derive_year_total
  by (simp add: eq_cell_iff)

lemma mask_iff:
  "(isin (pillar r) ps \<and> ge_cell (year r) lo \<and> le_cell (year r) hi \<and> eq_cell (unit r) u)
     \<longleftrightarrow> (\<exists>p. pillar r = Some p \<and> p \<in> set ps) \<and> (\<exists>y. year r = Some y \<and> lo \<le> y \<and> y \<le> hi)
          \<and> unit r = Some u"
  by (auto simp: isin_def ge_cell_def le_cell_def eq_cell_def split: option.splits)

lemma trend_data_Nil: "trend_data [] = []"
  by (simp add: trend_data_def group_keys_def)

lemma load_data_fails_iff:
  "isl (load_data rm rf ri) \<longleftrightarrow> isl rm \<or> isl rf \<or> isl ri"
  by (auto simp: load_data_def split: sum.splits)

section \<open>The filter of the Trends page\<close>

text \<open>
  C1. The rows that the mask of the Trends page retains are exactly the rows of the
  observation table whose pillar cell holds a member of the selected pillars, whose year
  is present and lies between the two bounds (both included), and whose unit cell holds
  the requested unit, character for character; they are retained in table order, each as
  often as it occurs. This holds for every pair of bounds, ordered or not. The source
  requests the unit \<^verbatim>\<open>'%'\<close>.
\<close>

theorem filter_retains_exactly:
  "filter_obs observations ps (lo, hi) u =
     filter (\<lambda>r. (\<exists>p. pillar r = Some p \<and> p \<in> set ps)
                \<and> (\<exists>y. year r = Some y \<and> lo \<le> y \<and> y \<le> hi)
                \<and> unit r = Some u) observations
   \<and> filtered_obs observations ps (lo, hi) = filter_obs observations ps (lo, hi) ''%''"
  unfolding filter_obs_def filtered_obs_def by (simp add: mask_iff)

theorem filter_retains_exactly_witness:
  "filter_obs
     [with_year (acc_row ''2017-12-31'' ''all'' 35) (Some 2017), with_year undated_row None,
      with_year event_row (Some 2021), with_year (acc_row ''2014-12-31'' ''all'' 22) (Some 2014),
      with_year (acc_row ''2024-12-31'' ''all'' 49) (Some 2024)]
     [''ACCESS''] (2012, 2017) ''%'' =
   [with_year (acc_row ''2017-12-31'' ''all'' 35) (Some 2017),
    with_year (acc_row ''2014-12-31'' ''all'' 22) (Some 2014)]"
  using filter_retains_exactly
          [of "[with_year (acc_row ''2017-12-31'' ''all'' 35) (Some 2017),
                with_year undated_row None, with_year event_row (Some 2021),
                with_year (acc_row ''2014-12-31'' ''all'' 22) (Some 2014),
                with_year (acc_row ''2024-12-31'' ''all'' 49) (Some 2024)]"
              "[''ACCESS'']" 2012 2017 "''%''"]
  by (simp add: undated_row_def event_row_def)

text \<open>
  C9. With no pillar selected the mask retains no row, whatever the table and the year
  range. Whenever the mask retains no row, the aggregation of the retained rows is the
  empty sequence and the Trends page shows the explanatory message in place of the chart;
  no step of this can raise.
\<close>

theorem empty_selection_is_empty_result:
  "filtered_obs observations [] year_range = []
   \<and> (filtered_obs observations ps year_range = [] \<longrightarrow>
        trend_data (filtered_obs observations ps year_range) = []
        \<and> trends_body observations year_range ps =
            [Info_no_data, Static Trends, Download_observations observations])"
  by (auto simp: filtered_obs_def filter_obs_def isin_def trend_data_Nil trends_body_def
        filter_empty_conv split: option.splits)

theorem empty_selection_is_empty_result_witness:
  "filtered_obs [with_year (acc_row ''2017-12-31'' ''all'' 35) (Some 2017)] [] (2011, 2025) = []
   \<and> trend_data (filtered_obs [with_year (acc_row ''2017-12-31'' ''all'' 35) (Some 2017)] [] (2011, 2025)) = []
   \<and> trends_body [with_year (acc_row ''2017-12-31'' ''all'' 35) (Some 2017)] (2011, 2025) [] =
       [Info_no_data, Static Trends,
        Download_observations [with_year (acc_row ''2017-12-31'' ''all'' 35) (Some 2017)]]"
  using empty_selection_is_empty_result
          [of "[with_year (acc_row ''2017-12-31'' ''all'' 35) (Some 2017)]" "(2011, 2025)" "[]"]
  by blast

section \<open>Loading failures\<close>

text \<open>
  C7. If one of the three reads raises, \<^verbatim>\<open>load_data\<close> raises, and the run of the
  script shows, for every page and every state of the widgets, the error box with that
  exception, the sidebar, the page header and the footer, and nothing else: none of the
  elements that the pages render under \<^verbatim>\<open>if data_loaded:\<close>.
\<close>

theorem load_failure_renders_no_data:
  assumes "isl read_main \<or> isl read_forecast \<or> isl read_impact"
  shows "\<exists>e. load_data read_main read_forecast read_impact = Inl e
           \<and> run_script parse read_main read_forecast read_impact p year_range ps =
               [Error_box e, Sidebar, Header p, Footer]
           \<and> (\<forall>el \<in> set (run_script parse read_main read_forecast read_impact p year_range ps).
                 \<not> page_content el)"
proof -
  from assms have "isl (load_data read_main read_forecast read_impact)"
    by (simp add: load_data_fails_iff)
  then obtain e where e: "load_data read_main read_forecast read_impact = Inl e"
    by (cases "load_data read_main read_forecast read_impact") auto
  then have "run_script parse read_main read_forecast read_impact p year_range ps =
               [Error_box e, Sidebar, Header p, Footer]"
    by (simp add: run_script_def load_block_def)
  with e show ?thesis by simp
qed

theorem load_failure_renders_no_data_witness:
  "(isl (Inr example_main :: py_error + row list) \<or> isl (Inr () :: py_error + unit)
      \<or> isl (Inl ParserError :: py_error + unit))
   \<and> run_script example_parse (Inr example_main) (Inr ()) (Inl ParserError :: py_error + unit)
         Trends (2011, 2025) [''ACCESS''] =
       [Error_box ParserError, Sidebar, Header Trends, Footer]"
  using load_failure_renders_no_data
          [where read_main = "Inr example_main" and read_forecast = "Inr ()"
             and read_impact = "Inl ParserError :: py_error + unit" and parse = example_parse
             and p = Trends and year_range = "(2011, 2025)" and ps = "[''ACCESS'']"]
  by (simp add: load_data_def)

section \<open>Unparseable dates\<close>

lemma ge_cell_None [simp]: "\<not> ge_cell None n"
  by (simp add: ge_cell_def)



section \<open>The partition into observations and events\<close>

lemma year_column:
  "\<exists>ts. to_datetime parse Coerce (map observation_date rows) = Inr ts
        \<and> dt_year ts = map (\<lambda>r. year_of parse (observation_date r)) rows"
  by (induction rows)
     (auto simp: to_datetime_cell_def dt_year_def year_of_def split: option.splits)

lemma assign_year_map:
  "assign_year rows (map f rows) = map (\<lambda>r. with_year r (f r)) rows"
  by (induction rows) (simp_all add: assign_year_def)

lemma mask_filter: "map snd (filter fst (zip (map P xs) xs)) = filter P xs"
  by (induction xs) simp_all

lemma mask_filter_zip:
  "length ys = length xs \<Longrightarrow>
     map snd (filter fst (zip (map P xs) ys)) = map snd (filter (\<lambda>(x, y). P x) (zip xs ys))"
  by (induction ys xs rule: list_induct2) simp_all

lemma getitem_bool_filter:
  "getitem_bool (map P (frame_rows (h ! a))) a h =
     (length h,
      h @ [Frame (filter P (frame_rows (h ! a)))
             (map_option (\<lambda>ys. map snd (filter fst (zip (map P (frame_rows (h ! a))) ys)))
                (frame_year (h ! a)))])"
  by (cases "h ! a") (simp add: getitem_bool_def alloc_def mask_filter)

lemma process_st_eq:
  assumes "a < length h"
  shows "\<exists>masked.
           process_st kind parse a h =
             Inr (Suc (length h),
                  h @ [masked,
                       Frame (filter (\<lambda>r. record_type r = Some kind) (frame_rows (h ! a)))
                         (Some (map (\<lambda>r. year_of parse (observation_date r))
                                  (filter (\<lambda>r. record_type r = Some kind)
                                     (frame_rows (h ! a)))))])"
proof -
  let ?P = "\<lambda>r. record_type r = Some kind"
  let ?rows = "filter ?P (frame_rows (h ! a))"
  obtain ts where ts: "to_datetime parse Coerce (map observation_date ?rows) = Inr ts"
    "dt_year ts = map (\<lambda>r. year_of parse (observation_date r)) ?rows"
    using year_column by blast
  have e: "(\<lambda>r. eq_cell (record_type r) kind) = ?P"
    by (simp add: eq_cell_iff)
  show ?thesis
    unfolding process_st_def Let_def e getitem_bool_filter
    using ts by (simp add: df_copy_def alloc_def setitem_year_def nth_append list_update_append)
qed

lemma frame_table_derived:
  "frame_table (Frame rows (Some (map f rows))) = map (\<lambda>r. with_year r (f r)) rows"
  by (simp add: frame_table_def assign_year_map)

lemma partition_mset:
  assumes "\<forall>r \<in> set rows. P r \<noteq> Q r"
  shows "mset (filter P rows) + mset (filter Q rows) = mset rows"
  using assms by (induction rows) auto

lemma truncate_derived:
  "map row.truncate (map (\<lambda>r. with_year r (f r)) rows) = rows"
  by (induction rows) simp_all



section \<open>Repeated evaluation of the filter and aggregation\<close>

lemma masked_table:
  "length ys = length rows \<Longrightarrow>
     assign_year (map snd (filter fst (zip (map P (assign_year rows ys)) rows)))
                 (map snd (filter fst (zip (map P (assign_year rows ys)) ys))) =
     filter P (assign_year rows ys)"
  by (induction ys rows rule: list_induct2) (simp_all add: assign_year_def)

lemma filter_aggregate_st_eq:
  assumes "a < length h" and "frame_year (h ! a) = Some ys"
    and "length ys = length (frame_rows (h ! a))"
  shows "\<exists>masked.
           filter_aggregate_st ps year_range a h =
             Inr (trend_data (filtered_obs (frame_table (h ! a)) ps year_range), h @ [masked])"
proof -
  let ?P = "\<lambda>r. isin (pillar r) ps \<and> ge_cell (year r) (fst year_range)
                   \<and> le_cell (year r) (snd year_range) \<and> eq_cell (unit r) ''%''"
  obtain rows where f: "h ! a = Frame rows (Some ys)" and l: "length ys = length rows"
    using assms(2,3) by (cases "h ! a") auto
  have t: "frame_table (h ! a) = assign_year rows ys"
    by (simp add: f frame_table_def)
  have m: "frame_table (Frame (map snd (filter fst (zip (map ?P (assign_year rows ys)) rows)))
                          (Some (map snd (filter fst (zip (map ?P (assign_year rows ys)) ys))))) =
           filter ?P (assign_year rows ys)"
    unfolding frame_table_def using masked_table [OF l, of ?P] by simp
  show ?thesis
    unfolding filter_aggregate_st_def t
    using m by (simp add: f getitem_bool_def alloc_def filtered_obs_def filter_obs_def Let_def)
qed

text \<open>
  C8. The observation table is an object of the store with a year column. One evaluation
  of the filter and aggregation succeeds, returns the group means of the rows that the
  mask retains, and adds one object to the store without changing any object that was
  there. A second evaluation with the same selection and year range, on the store that
  the first one left, returns the same sequence of group means, equal element for element
  and hence also as a multiset.
\<close>

theorem filter_aggregate_repeatable:
  assumes "a < length h" and "frame_year (h ! a) = Some ys"
    and "length ys = length (frame_rows (h ! a))"
  shows "\<exists>out h1 h2.
           filter_aggregate_st ps year_range a h = Inr (out, h1)
         \<and> filter_aggregate_st ps year_range a h1 = Inr (out, h2)
         \<and> out = trend_data (filtered_obs (frame_table (h ! a)) ps year_range)
         \<and> take (length h) h1 = h \<and> take (length h1) h2 = h1
         \<and> length h < length h1 \<and> length h1 < length h2"
proof -
  obtain m1 where s1: "filter_aggregate_st ps year_range a h =
      Inr (trend_data (filtered_obs (frame_table (h ! a)) ps year_range), h @ [m1])"
    using filter_aggregate_st_eq [OF assms] by blast
  have a1: "a < length (h @ [m1])" and same: "(h @ [m1]) ! a = h ! a"
    using assms(1) by (simp_all add: nth_append)
  obtain m2 where s2: "filter_aggregate_st ps year_range a (h @ [m1]) =
      Inr (trend_data (filtered_obs (frame_table (h ! a)) ps year_range), (h @ [m1]) @ [m2])"
    using filter_aggregate_st_eq [OF a1, of ys ps year_range] assms(2,3) same by auto
  show ?thesis
    apply (rule exI [of _ "trend_data (filtered_obs (frame_table (h ! a)) ps year_range)"])
    apply (rule exI [of _ "h @ [m1]"])
    apply (rule exI [of _ "(h @ [m1]) @ [m2]"])
    apply (simp only: s1 s2)
    apply simp
    done
qed

theorem filter_aggregate_repeatable_witness:
  "\<exists>h1 h2.
      filter_aggregate_st [''ACCESS''] (2011, 2025) 0
        [Frame [acc_row ''2017-12-31'' ''all'' 35, acc_row ''2021-12-31'' ''male'' 56]
           (Some [Some 2017, Some 2021])] =
        Inr ([((''ACC_OWNERSHIP'', 2017, ''ACCESS''), Some 35),
              ((''ACC_OWNERSHIP'', 2021, ''ACCESS''), Some 56)], h1)
    \<and> filter_aggregate_st [''ACCESS''] (2011, 2025) 0 h1 =
        Inr ([((''ACC_OWNERSHIP'', 2017, ''ACCESS''), Some 35),
              ((''ACC_OWNERSHIP'', 2021, ''ACCESS''), Some 56)], h2)"
proof -
  let ?h = "[Frame [acc_row ''2017-12-31'' ''all'' 35, acc_row ''2021-12-31'' ''male'' 56]
               (Some [Some 2017, Some 2021])]"
  have a: "0 < length ?h" "frame_year (?h ! 0) = Some [Some 2017, Some 2021]"
    "length [Some (2017 :: int), Some 2021] = length (frame_rows (?h ! 0))"
    by simp_all
  have t: "trend_data (filtered_obs (frame_table (?h ! 0)) [''ACCESS''] (2011, 2025)) =
        [((''ACC_OWNERSHIP'', 2017, ''ACCESS''), Some 35),
         ((''ACC_OWNERSHIP'', 2021, ''ACCESS''), Some 56)]"
    by (simp add: frame_table_def assign_year_def filtered_obs_def filter_obs_def isin_def
          ge_cell_def le_cell_def eq_cell_def trend_data_def group_keys_def group_key_def
          group_rows_def mean_skipna_def)
  from filter_aggregate_repeatable [OF a, of "[''ACCESS'']" "(2011, 2025)"]
  show ?thesis
    unfolding t by blast
qed

section \<open>The latest-value selector\<close>

lemma dated_pairs:
  "dropna (map (\<lambda>r. map_option (\<lambda>y. (y, r)) (year r)) df) =
     map (\<lambda>r. (the (year r), r)) (filter has_year df)"
  by (induction df) (auto simp: has_year_def split: option.splits)

lemma undated_filter: "filter (\<lambda>r. year r = None) df = filter (\<lambda>r. \<not> has_year r) df"
  by (simp add: has_year_def)

lemma sort_values_year_split:
  "sort_values_year df =
     map snd (sort_key fst (map (\<lambda>r. (the (year r), r)) (filter has_year df)))
       @ filter (\<lambda>r. \<not> has_year r) df"
  unfolding sort_values_year_def dated_pairs undated_filter by (rule refl)

lemma snd_dated_pairs: "map snd (map (\<lambda>r. (the (year r), r)) xs) = xs"
  by (induction xs) simp_all

lemma dated_part_mset:
  "mset (map snd (sort_key fst (map (\<lambda>r. (the (year r), r)) xs))) = mset xs"
proof -
  have "mset (map snd (sort_key fst (map (\<lambda>r. (the (year r), r)) xs))) =
          image_mset snd (mset (sort_key fst (map (\<lambda>r. (the (year r), r)) xs)))"
    by (rule mset_map)
  also have "\<dots> = image_mset snd (mset (map (\<lambda>r. (the (year r), r)) xs))"
    by (simp only: mset_sort)
  also have "\<dots> = mset (map snd (map (\<lambda>r. (the (year r), r)) xs))"
    by (rule mset_map [symmetric])
  finally show ?thesis
    by (simp only: snd_dated_pairs)
qed

lemma dated_part_set:
  "set (map snd (sort_key fst (map (\<lambda>r. (the (year r), r)) xs))) = set xs"
proof -
  have "set_mset (mset (map snd (sort_key fst (map (\<lambda>r. (the (year r), r)) xs)))) =
          set_mset (mset xs)"
    by (simp only: dated_part_mset)
  then show ?thesis
    by (simp only: set_mset_mset)
qed

lemma mset_sort_values_year: "mset (sort_values_year df) = mset df"
proof -
  have "mset (filter has_year df) + mset (filter (\<lambda>r. \<not> has_year r) df) = mset df"
    by (induction df) auto
  then show ?thesis
    unfolding sort_values_year_split mset_append dated_part_mset .
qed

lemma length_sort_values_year: "length (sort_values_year df) = length df"
proof -
  have "size (mset (sort_values_year df)) = size (mset df)"
    by (simp only: mset_sort_values_year)
  then show ?thesis
    by (simp only: size_mset)
qed

lemma set_sort_values_year: "set (sort_values_year df) = set df"
proof -
  have "set_mset (mset (sort_values_year df)) = set_mset (mset df)"
    by (simp only: mset_sort_values_year)
  then show ?thesis
    by (simp only: set_mset_mset)
qed

lemma sorted_pairs_years:
  assumes "\<forall>p \<in> set ps. year (snd p) = Some (fst p)" and "sorted (map fst ps)"
  shows "sorted_wrt (\<lambda>a b. year_before (year a) (year b)) (map snd ps)"
  using assms
proof (induction ps)
  case Nil
  show ?case by simp
next
  case (Cons p ps)
  then show ?case
    by (auto simp: year_before_def)
qed

lemma dated_part_sorted:
  "sorted_wrt (\<lambda>a b. year_before (year a) (year b))
     (map snd (sort_key fst (map (\<lambda>r. (the (year r), r)) (filter has_year df))))"
proof (rule sorted_pairs_years)
  show "\<forall>p \<in> set (sort_key fst (map (\<lambda>r. (the (year r), r)) (filter has_year df))).
          year (snd p) = Some (fst p)"
    by (auto simp: has_year_def)
  show "sorted (map fst (sort_key fst (map (\<lambda>r. (the (year r), r)) (filter has_year df))))"
    by (rule sorted_sort_key)
qed

lemma undated_part_sorted:
  "sorted_wrt (\<lambda>a b. year_before (year a) (year b)) (filter (\<lambda>r. \<not> has_year r) df)"
  by (induction df) (auto simp: has_year_def year_before_def)

lemma sorted_sort_values_year:
  "sorted_wrt (\<lambda>a b. year_before (year a) (year b)) (sort_values_year df)"
proof -
  have "year_before (year a) (year b)"
    if "b \<in> set (filter (\<lambda>r. \<not> has_year r) df)" for a b
    using that by (simp add: has_year_def year_before_def)
  then show ?thesis
    unfolding sort_values_year_split sorted_wrt_append
    using dated_part_sorted undated_part_sorted by blast
qed

lemma filter_dated_sort_values_year:
  "filter has_year (sort_values_year df) =
     map snd (sort_key fst (map (\<lambda>r. (the (year r), r)) (filter has_year df)))"
proof -
  have "\<forall>r \<in> set (map snd (sort_key fst (map (\<lambda>r. (the (year r), r)) (filter has_year df)))).
          has_year r"
    unfolding dated_part_set by simp
  then have "filter has_year
               (map snd (sort_key fst (map (\<lambda>r. (the (year r), r)) (filter has_year df)))) =
             map snd (sort_key fst (map (\<lambda>r. (the (year r), r)) (filter has_year df)))"
    by (simp only: filter_id_conv)
  moreover have "filter has_year (filter (\<lambda>r. \<not> has_year r) df) = []"
    by (simp add: filter_empty_conv)
  ultimately show ?thesis
    unfolding sort_values_year_split filter_append by simp
qed

lemma sort_values_year_undated_last:
  "sort_values_year df =
     filter has_year (sort_values_year df) @ filter (\<lambda>r. \<not> has_year r) df"
  unfolding filter_dated_sort_values_year by (rule sort_values_year_split)

lemma iloc_last: "xs \<noteq> [] \<Longrightarrow> iloc xs (- 1) = Inr (last xs)"
  by (cases xs rule: rev_cases) (auto simp: iloc_def nth_append)

lemma iloc_before_last: "iloc (xs @ [p, c]) (- 2) = Inr p"
  by (simp add: iloc_def nth_append)

lemma current_acc_rev:
  "current_acc acc =
     Inr (case rev (map value_numeric acc) of [] \<Rightarrow> Some 49 | c # _ \<Rightarrow> c)"
proof (cases acc rule: rev_cases)
  case Nil
  then show ?thesis by (simp add: current_acc_def)
next
  case (snoc ys y)
  then show ?thesis by (simp add: current_acc_def iloc_last)
qed

lemma prev_acc_rev:
  "prev_acc acc =
     Inr (case rev (map value_numeric acc) of c # p # _ \<Rightarrow> p | _ \<Rightarrow> Some 46)"
proof (cases acc rule: rev_cases)
  case Nil
  then show ?thesis by (simp add: prev_acc_def)
next
  case (snoc ys y)
  note outer = snoc
  show ?thesis
  proof (cases ys rule: rev_cases)
    case Nil
    with outer show ?thesis by (simp add: prev_acc_def)
  next
    case (snoc zs z)
    have "iloc (map value_numeric zs @ [value_numeric z, value_numeric y]) (- 2) =
            Inr (value_numeric z)"
      by (rule iloc_before_last)
    with outer snoc show ?thesis by (simp add: prev_acc_def)
  qed
qed

lemma select_sorted_filter:
  "select_sorted code g observations = sort_values_year (filter (matches code g) observations)"
  by (simp add: select_sorted_def matches_def [abs_def] eq_cell_iff)

lemma spec_current_None:
  "fst (latestAndPrevious_spec observations code g) = None \<longleftrightarrow>
     filter (matches code g) observations = []"
proof -
  have "length (select_sorted code g observations) = length (filter (matches code g) observations)"
    by (simp only: select_sorted_filter length_sort_values_year)
  then have "rev (map value_numeric (select_sorted code g observations)) = [] \<longleftrightarrow>
               filter (matches code g) observations = []"
    by (metis length_0_conv length_map length_rev)
  then show ?thesis
    by (auto simp: latestAndPrevious_spec_def split: list.splits)
qed

lemma last_two_None:
  "snd (case xs of [] \<Rightarrow> (None, None) | [c] \<Rightarrow> (Some c, None) | c # p # _ \<Rightarrow> (Some c, Some p)) = None
     \<longleftrightarrow> length xs < 2"
  by (cases xs; cases "tl xs") auto

lemma spec_previous_None:
  "snd (latestAndPrevious_spec observations code g) = None \<longleftrightarrow>
     length (filter (matches code g) observations) < 2"
proof -
  have "length (rev (map value_numeric (select_sorted code g observations))) =
          length (filter (matches code g) observations)"
    by (simp only: select_sorted_filter length_sort_values_year length_rev length_map)
  then show ?thesis
    unfolding latestAndPrevious_spec_def last_two_None by simp
qed

lemma example_partitioned:
  "process_observations example_parse example_main = Inr example_observations"
  by (simp add: process_observations_eq example_main_def example_observations_def year_of_def
        example_parse_def mk_ts_def event_row_def)

lemma example_selected:
  "select_sorted ''ACC_OWNERSHIP'' ''all'' example_observations =
     [with_year (acc_row ''2011-12-31'' ''all'' 14) (Some 2011),
      with_year (acc_row ''2014-12-31'' ''all'' 22) (Some 2014),
      with_year (acc_row ''2017-12-31'' ''all'' 35) (Some 2017),
      with_year (acc_row ''2021-12-31'' ''all'' 46) (Some 2021),
      with_year (acc_row ''2024-12-31'' ''all'' 49) (Some 2024)]"
  by (simp add: select_sorted_def sort_values_year_def eq_cell_def example_observations_def)



text \<open>
  C10. The selector of the Overview page keeps the rows whose year is absent: they come
  after all rows with a present year, in table order. If a row of the indicator and
  gender has an absent year, the last row of the sorted table has an absent year, and
  the current value is the value of the last such row of the table, not that of the
  latest dated row.
\<close>

theorem undated_row_is_current:
  assumes "r \<in> set observations" and "matches ''ACC_OWNERSHIP'' ''all'' r" and "year r = None"
  shows "acc_ownership observations =
           filter has_year (acc_ownership observations)
             @ filter (\<lambda>x. \<not> has_year x) (filter (matches ''ACC_OWNERSHIP'' ''all'') observations)
       \<and> r \<in> set (acc_ownership observations)
       \<and> year (last (acc_ownership observations)) = None
       \<and> current_acc (acc_ownership observations) =
           Inr (value_numeric (last (filter (\<lambda>x. \<not> has_year x)
                  (filter (matches ''ACC_OWNERSHIP'' ''all'') observations))))"
proof -
  let ?M = "filter (matches ''ACC_OWNERSHIP'' ''all'') observations"
  let ?U = "filter (\<lambda>x. \<not> has_year x) ?M"
  have acc: "acc_ownership observations = sort_values_year ?M"
    by (simp only: acc_ownership_def select_sorted_filter)
  have split: "acc_ownership observations = filter has_year (acc_ownership observations) @ ?U"
    unfolding acc by (rule sort_values_year_undated_last)
  have rU: "r \<in> set ?U"
    using assms by (simp add: has_year_def)
  then have ne: "?U \<noteq> []"
    by (metis empty_iff list.set(1))
  have mem: "r \<in> set (acc_ownership observations)"
    using assms(1,2) unfolding acc set_sort_values_year by simp
  have l: "last (acc_ownership observations) = last ?U"
    using ne split by (metis last_appendR)
  have "last ?U \<in> set ?U"
    using ne by (rule last_in_set)
  then have y: "year (last ?U) = None"
    by (simp add: has_year_def)
  have ne': "map value_numeric (acc_ownership observations) \<noteq> []"
    using mem by auto
  have cur: "current_acc (acc_ownership observations) = Inr (value_numeric (last ?U))"
    using ne' mem l by (simp add: current_acc_def iloc_last last_map)
  from split mem l y cur show ?thesis
    by simp
qed

theorem undated_row_is_current_witness:
  "process_observations example_parse (undated_row # example_main) =
     Inr (with_year undated_row None # example_observations)
   \<and> year (last (acc_ownership (with_year undated_row None # example_observations))) = None
   \<and> current_acc (acc_ownership (with_year undated_row None # example_observations)) =
       Inr (Some 55)"
proof -
  have p: "process_observations example_parse (undated_row # example_main) =
     Inr (with_year undated_row None # example_observations)"
    by (simp add: process_observations_eq example_main_def example_observations_def year_of_def
        example_parse_def mk_ts_def event_row_def undated_row_def)
  have h: "with_year undated_row None \<in> set (with_year undated_row None # example_observations)"
    "matches ''ACC_OWNERSHIP'' ''all'' (with_year undated_row None)"
    "year (with_year undated_row None) = None"
    by (simp_all add: matches_def undated_row_def)
  have u: "filter (\<lambda>x. \<not> has_year x) (filter (matches ''ACC_OWNERSHIP'' ''all'')
             (with_year undated_row None # example_observations)) = [with_year undated_row None]"
    by (simp add: matches_def has_year_def undated_row_def example_observations_def)
  from undated_row_is_current [OF h] p show ?thesis
    unfolding u by (simp add: undated_row_def)
qed

section \<open>The group means\<close>

lemma set_dropna: "set (dropna xs) = {x. Some x \<in> set xs}"
  by (induction xs) (auto split: option.splits)

lemma set_group_keys: "set (group_keys rows) = {k. \<exists>r \<in> set rows. group_key r = Some k}"
  by (auto simp: group_keys_def set_dropna image_iff) (metis)

lemma group_key_iff:
  "group_key r = Some (c, y, p) \<longleftrightarrow>
     indicator_code r = Some c \<and> year r = Some y \<and> pillar r = Some p"
  by (auto simp: group_key_def split: option.splits)

lemma trend_data_keys: "map fst (trend_data rows) = group_keys rows"
  by (simp add: trend_data_def comp_def)

lemma trend_data_entry:
  "(k, m) \<in> set (trend_data rows) \<longleftrightarrow>
     k \<in> set (group_keys rows) \<and> m = mean_skipna (map value_numeric (group_rows k rows))"
  by (auto simp: trend_data_def)

lemma example_group_partitioned:
  "process_observations example_parse example_group =
     Inr (map (\<lambda>r. with_year r (Some 2021)) example_group)"
  by (simp add: process_observations_eq example_group_def year_of_def example_parse_def mk_ts_def)

lemma example_group_filtered:
  "filtered_obs (map (\<lambda>r. with_year r (Some 2021)) example_group) [''USAGE''] (2011, 2025) =
     map (\<lambda>r. with_year r (Some 2021)) example_group"
  by (simp add: filtered_obs_def filter_obs_def isin_def ge_cell_def le_cell_def eq_cell_def
        example_group_def)

lemma example_group_trend:
  "trend_data (map (\<lambda>r. with_year r (Some 2021)) example_group) =
     [((''USG_P2P'', 2021, ''USAGE''), Some 15)]"
  by (simp add: trend_data_def group_keys_def group_key_def group_rows_def mean_skipna_def
        example_group_def)




section \<open>The CSV export of the Trends page\<close>

lemma download_in_trends_body:
  "Download_observations t \<in> set (trends_body observations year_range ps) \<longleftrightarrow> t = observations"
  by (auto simp: trends_body_def Let_def)

lemma load_block_session:
  assumes "load_block parse read_main read_forecast read_impact = Inr s"
  shows "read_main = Inr (s_main_data s)"
    and "process_observations parse (s_main_data s) = Inr (s_observations s)"
  using assms
  by (auto simp: load_block_def load_data_def process_observations_eq process_events_eq
           split: sum.splits)

lemma run_script_trends:
  assumes "load_block parse read_main read_forecast read_impact = Inr s"
  shows "run_script parse read_main read_forecast read_impact Trends year_range ps =
           [Sidebar, Header Trends] @ trends_body (s_observations s) year_range ps @ [Footer]"
  using assms by (simp add: run_script_def page_body_def)


lemma example_undated_partitioned:
  "process_observations example_parse (undated_row # example_main) =
     Inr (with_year undated_row None # example_observations)"
  by (simp add: process_observations_eq example_main_def example_observations_def year_of_def
        example_parse_def mk_ts_def event_row_def undated_row_def)

lemma example_undated_events:
  "process_events example_parse (undated_row # example_main) = Inr [with_year event_row (Some 2021)]"
  by (simp add: process_events_eq example_main_def year_of_def
        example_parse_def mk_ts_def event_row_def undated_row_def)



end
